theory Spec2Isabelle
  imports Main
begin

section \<open>The implementors file of the \<open>multipart\<close> documentation\<close>

text \<open>
  The file \<^verbatim>\<open>doc/implementors/core/convert/trait.From.js\<close> is one immediately invoked
  function. It builds an object \<^verbatim>\<open>implementors\<close>, stores an array of strings in it under
  the key \<^verbatim>\<open>multipart\<close>, and then either calls \<^verbatim>\<open>window.register_implementors\<close> with
  the object or assigns the object to \<^verbatim>\<open>window.pending_implementors\<close>.
\<close>

subsection \<open>Values, the global object and results\<close>

text \<open>
  An implementors object maps a crate name to an array of strings. JavaScript objects keep
  their keys in insertion order, so the object is an association list.
\<close>

type_synonym table = "(string \<times> string list) list"

text \<open>
  The values a property of \<^verbatim>\<open>window\<close> can hold. A function is known by an identifier only:
  its body belongs to the page, not to this file. Numbers are kept as integers, with
  \<open>JNaN\<close> apart: the file only ever tests a value for truth.
\<close>

datatype jsval =
    JUndefined
  | JNull
  | JBool bool
  | JNum int
  | JNaN
  | JStr string
  | JTable table
  | JFunction nat

text \<open>The global object: property names to values. A missing property reads as \<open>undefined\<close>.\<close>

type_synonym window = "string \<rightharpoonup> jsval"

definition get_prop :: "window \<Rightarrow> string \<Rightarrow> jsval" where
  "get_prop w k = (case w k of None \<Rightarrow> JUndefined | Some v \<Rightarrow> v)"

text \<open>The conversion to a boolean that \<^verbatim>\<open>if (...)\<close> applies to its condition.\<close>

fun truthy :: "jsval \<Rightarrow> bool" where
  "truthy JUndefined = False"
| "truthy JNull = False"
| "truthy (JBool b) = b"
| "truthy (JNum n) = (n \<noteq> 0)"
| "truthy JNaN = False"
| "truthy (JStr s) = (s \<noteq> [])"
| "truthy (JTable t) = True"
| "truthy (JFunction f) = True"

fun callable :: "jsval \<Rightarrow> bool" where
  "callable (JFunction f) = True"
| "callable v = False"

text \<open>
  Calling a value that is not a function throws a \<^verbatim>\<open>TypeError\<close>. A call of a function is
  recorded as an event, with the function and the list of its arguments; what the function
  then does is the page's business and is not part of this file.
\<close>

datatype exn = TypeError

datatype event = Call nat "jsval list"

type_synonym result = "exn + (window \<times> event list)"

fun call_value :: "jsval \<Rightarrow> jsval list \<Rightarrow> window \<Rightarrow> result" where
  "call_value (JFunction f) args w = Inr (w, [Call f args])"
| "call_value v args w = Inl TypeError"

fun final_window :: "result \<Rightarrow> window option" where
  "final_window (Inl e) = None"
| "final_window (Inr (w, cs)) = Some w"

fun calls_made :: "result \<Rightarrow> event list option" where
  "calls_made (Inl e) = None"
| "calls_made (Inr (w, cs)) = Some cs"

text \<open>One load after another: the second starts in the window the first one left.\<close>

definition then_load :: "result \<Rightarrow> (window \<Rightarrow> result) \<Rightarrow> result" where
  "then_load r step =
     (case r of
        Inl e \<Rightarrow> Inl e
      | Inr (w, cs) \<Rightarrow>
          (case step w of
             Inl e \<Rightarrow> Inl e
           | Inr (w', cs') \<Rightarrow> Inr (w', cs @ cs')))"

subsection \<open>The table\<close>

text \<open>
  The assignment \<^verbatim>\<open>obj[k] = v\<close>: an existing key keeps its place and takes the new value,
  a new key goes to the end.
\<close>

fun obj_set :: "string \<Rightarrow> string list \<Rightarrow> table \<Rightarrow> table" where
  "obj_set k v [] = [(k, v)]"
| "obj_set k v ((k', v') # kvs) =
     (if k' = k then (k, v) # kvs else (k', v') # obj_set k v kvs)"

definition keys :: "table \<Rightarrow> string list" where
  "keys t = map fst t"

fun obj_get :: "table \<Rightarrow> string \<Rightarrow> string list option" where
  "obj_get [] k = None"
| "obj_get ((k', v) # kvs) k = (if k' = k then Some v else obj_get kvs k)"

text \<open>The array literal on the second line of the file (its trailing comma adds no element).\<close>

definition implementors_multipart :: "string list" where
  "implementors_multipart =
    [''impl&lt;'a&gt; <a class='trait' href='https://doc.rust-lang.org/nightly/core/convert/trait.From.html' title='core::convert::From'>From</a>&lt;&amp;'a <a class='primitive' href='https://doc.rust-lang.org/nightly/std/primitive.str.html'>str</a>&gt; for <a class='enum' href='https://hyperium.github.io/hyper/hyper/client/pool/enum.Scheme.html' title='hyper::client::pool::Scheme'>Scheme</a>'',
     ''impl&lt;'a, R&gt; <a class='trait' href='https://doc.rust-lang.org/nightly/core/convert/trait.From.html' title='core::convert::From'>From</a>&lt;&amp;'a mut R&gt; for <a class='enum' href='https://hyperium.github.io/hyper/hyper/client/enum.Body.html' title='hyper::client::Body'>Body</a>&lt;'a&gt; <span class='where'>where R: <a class='trait' href='https://doc.rust-lang.org/nightly/std/io/trait.Read.html' title='std::io::Read'>Read</a></span>'',
     ''impl <a class='trait' href='https://doc.rust-lang.org/nightly/core/convert/trait.From.html' title='core::convert::From'>From</a>&lt;<a class='struct' href='https://doc.rust-lang.org/nightly/std/io/error/struct.Error.html' title='std::io::error::Error'>Error</a>&gt; for <a class='enum' href='https://hyperium.github.io/hyper/hyper/error/enum.Error.html' title='hyper::error::Error'>Error</a>'',
     ''impl <a class='trait' href='https://doc.rust-lang.org/nightly/core/convert/trait.From.html' title='core::convert::From'>From</a>&lt;ParseError&gt; for <a class='enum' href='https://hyperium.github.io/hyper/hyper/error/enum.Error.html' title='hyper::error::Error'>Error</a>'',
     ''impl <a class='trait' href='https://doc.rust-lang.org/nightly/core/convert/trait.From.html' title='core::convert::From'>From</a>&lt;<a class='enum' href='https://sfackler.github.io/rust-openssl/doc/v0.7.9/openssl/ssl/error/enum.SslError.html' title='openssl::ssl::error::SslError'>SslError</a>&gt; for <a class='enum' href='https://hyperium.github.io/hyper/hyper/error/enum.Error.html' title='hyper::error::Error'>Error</a>'',
     ''impl <a class='trait' href='https://doc.rust-lang.org/nightly/core/convert/trait.From.html' title='core::convert::From'>From</a>&lt;<a class='struct' href='https://doc.rust-lang.org/nightly/core/str/struct.Utf8Error.html' title='core::str::Utf8Error'>Utf8Error</a>&gt; for <a class='enum' href='https://hyperium.github.io/hyper/hyper/error/enum.Error.html' title='hyper::error::Error'>Error</a>'',
     ''impl <a class='trait' href='https://doc.rust-lang.org/nightly/core/convert/trait.From.html' title='core::convert::From'>From</a>&lt;<a class='struct' href='https://doc.rust-lang.org/nightly/collections/string/struct.FromUtf8Error.html' title='collections::string::FromUtf8Error'>FromUtf8Error</a>&gt; for <a class='enum' href='https://hyperium.github.io/hyper/hyper/error/enum.Error.html' title='hyper::error::Error'>Error</a>'',
     ''impl <a class='trait' href='https://doc.rust-lang.org/nightly/core/convert/trait.From.html' title='core::convert::From'>From</a>&lt;Error&gt; for <a class='enum' href='https://hyperium.github.io/hyper/hyper/error/enum.Error.html' title='hyper::error::Error'>Error</a>'',
     ''impl <a class='trait' href='https://doc.rust-lang.org/nightly/core/convert/trait.From.html' title='core::convert::From'>From</a>&lt;<a class='enum' href='https://mlalic.github.io/solicit/solicit/http/enum.HttpError.html' title='solicit::http::HttpError'>HttpError</a>&gt; for <a class='enum' href='https://hyperium.github.io/hyper/hyper/error/enum.Error.html' title='hyper::error::Error'>Error</a>'',
     ''impl&lt;T&gt; <a class='trait' href='https://doc.rust-lang.org/nightly/core/convert/trait.From.html' title='core::convert::From'>From</a>&lt;<a class='struct' href='https://doc.rust-lang.org/nightly/collections/vec/struct.Vec.html' title='collections::vec::Vec'>Vec</a>&lt;T&gt;&gt; for <a class='struct' href='https://doc.rust-lang.org/nightly/collections/binary_heap/struct.BinaryHeap.html' title='collections::binary_heap::BinaryHeap'>BinaryHeap</a>&lt;T&gt; <span class='where'>where T: <a class='trait' href='https://doc.rust-lang.org/nightly/core/cmp/trait.Ord.html' title='core::cmp::Ord'>Ord</a></span>'',
     ''impl&lt;T&gt; <a class='trait' href='https://doc.rust-lang.org/nightly/core/convert/trait.From.html' title='core::convert::From'>From</a>&lt;<a class='struct' href='https://doc.rust-lang.org/nightly/collections/binary_heap/struct.BinaryHeap.html' title='collections::binary_heap::BinaryHeap'>BinaryHeap</a>&lt;T&gt;&gt; for <a class='struct' href='https://doc.rust-lang.org/nightly/collections/vec/struct.Vec.html' title='collections::vec::Vec'>Vec</a>&lt;T&gt;'',
     ''impl&lt;'a, T&gt; <a class='trait' href='https://doc.rust-lang.org/nightly/core/convert/trait.From.html' title='core::convert::From'>From</a>&lt;&amp;'a mut <a class='enum' href='https://doc.rust-lang.org/nightly/core/option/enum.Option.html' title='core::option::Option'>Option</a>&lt;<a class='struct' href='https://doc.rust-lang.org/nightly/alloc/boxed/struct.Box.html' title='alloc::boxed::Box'>Box</a>&lt;<a class='struct' href='https://doc.rust-lang.org/nightly/collections/linked_list/struct.Node.html' title='collections::linked_list::Node'>Node</a>&lt;T&gt;&gt;&gt;&gt; for <a class='struct' href='https://doc.rust-lang.org/nightly/collections/linked_list/struct.Rawlink.html' title='collections::linked_list::Rawlink'>Rawlink</a>&lt;<a class='struct' href='https://doc.rust-lang.org/nightly/collections/linked_list/struct.Node.html' title='collections::linked_list::Node'>Node</a>&lt;T&gt;&gt;'',
     ''impl&lt;'a&gt; <a class='trait' href='https://doc.rust-lang.org/nightly/core/convert/trait.From.html' title='core::convert::From'>From</a>&lt;&amp;'a <a class='primitive' href='https://doc.rust-lang.org/nightly/std/primitive.str.html'>str</a>&gt; for <a class='struct' href='https://doc.rust-lang.org/nightly/collections/string/struct.String.html' title='collections::string::String'>String</a>'',
     ''impl&lt;'a&gt; <a class='trait' href='https://doc.rust-lang.org/nightly/core/convert/trait.From.html' title='core::convert::From'>From</a>&lt;&amp;'a <a class='primitive' href='https://doc.rust-lang.org/nightly/std/primitive.str.html'>str</a>&gt; for <a class='enum' href='https://doc.rust-lang.org/nightly/collections/borrow/enum.Cow.html' title='collections::borrow::Cow'>Cow</a>&lt;'a, <a class='primitive' href='https://doc.rust-lang.org/nightly/std/primitive.str.html'>str</a>&gt;'',
     ''impl&lt;'a&gt; <a class='trait' href='https://doc.rust-lang.org/nightly/core/convert/trait.From.html' title='core::convert::From'>From</a>&lt;<a class='struct' href='https://doc.rust-lang.org/nightly/collections/string/struct.String.html' title='collections::string::String'>String</a>&gt; for <a class='enum' href='https://doc.rust-lang.org/nightly/collections/borrow/enum.Cow.html' title='collections::borrow::Cow'>Cow</a>&lt;'a, <a class='primitive' href='https://doc.rust-lang.org/nightly/std/primitive.str.html'>str</a>&gt;'',
     ''impl&lt;'a, T&gt; <a class='trait' href='https://doc.rust-lang.org/nightly/core/convert/trait.From.html' title='core::convert::From'>From</a>&lt;<a class='primitive' href='https://doc.rust-lang.org/nightly/std/primitive.slice.html'>&amp;'a [T]</a>&gt; for <a class='struct' href='https://doc.rust-lang.org/nightly/collections/vec/struct.Vec.html' title='collections::vec::Vec'>Vec</a>&lt;T&gt; <span class='where'>where T: <a class='trait' href='https://doc.rust-lang.org/nightly/core/clone/trait.Clone.html' title='core::clone::Clone'>Clone</a></span>'',
     ''impl&lt;'a&gt; <a class='trait' href='https://doc.rust-lang.org/nightly/core/convert/trait.From.html' title='core::convert::From'>From</a>&lt;&amp;'a <a class='primitive' href='https://doc.rust-lang.org/nightly/std/primitive.str.html'>str</a>&gt; for <a class='struct' href='https://doc.rust-lang.org/nightly/collections/vec/struct.Vec.html' title='collections::vec::Vec'>Vec</a>&lt;<a class='primitive' href='https://doc.rust-lang.org/nightly/std/primitive.u8.html'>u8</a>&gt;'',
     ''impl&lt;T&gt; <a class='trait' href='https://doc.rust-lang.org/nightly/core/convert/trait.From.html' title='core::convert::From'>From</a>&lt;T&gt; for <a class='struct' href='https://doc.rust-lang.org/nightly/alloc/boxed/struct.Box.html' title='alloc::boxed::Box'>Box</a>&lt;T&gt;'',
     ''impl&lt;W&gt; <a class='trait' href='https://doc.rust-lang.org/nightly/core/convert/trait.From.html' title='core::convert::From'>From</a>&lt;<a class='struct' href='https://hyperium.github.io/hyper/hyper/http/h1/struct.EndError.html' title='hyper::http::h1::EndError'>EndError</a>&lt;W&gt;&gt; for <a class='struct' href='https://doc.rust-lang.org/nightly/std/io/error/struct.Error.html' title='std::io::error::Error'>Error</a> <span class='where'>where W: <a class='trait' href='https://doc.rust-lang.org/nightly/std/io/trait.Write.html' title='std::io::Write'>Write</a></span>'',
     ''impl <a class='trait' href='https://doc.rust-lang.org/nightly/core/convert/trait.From.html' title='core::convert::From'>From</a>&lt;<a class='struct' href='https://doc.rust-lang.org/nightly/std/io/error/struct.Error.html' title='std::io::error::Error'>Error</a>&gt; for <a class='struct' href='https://hyperium.github.io/hyper/hyper/http/h2/struct.Http2ConnectError.html' title='hyper::http::h2::Http2ConnectError'>Http2ConnectError</a>'',
     ''impl&lt;T&gt; <a class='trait' href='https://doc.rust-lang.org/nightly/core/convert/trait.From.html' title='core::convert::From'>From</a>&lt;T&gt; for <a class='struct' href='https://doc.rust-lang.org/nightly/alloc/boxed/struct.Box.html' title='alloc::boxed::Box'>Box</a>&lt;<a class='trait' href='https://hyperium.github.io/hyper/hyper/net/trait.NetworkStream.html' title='hyper::net::NetworkStream'>NetworkStream</a> + 'static + <a class='trait' href='https://doc.rust-lang.org/nightly/core/marker/trait.Send.html' title='core::marker::Send'>Send</a>&gt; <span class='where'>where T: <a class='trait' href='https://doc.rust-lang.org/nightly/core/marker/trait.Send.html' title='core::marker::Send'>Send</a> + <a class='trait' href='https://hyperium.github.io/hyper/hyper/net/trait.NetworkStream.html' title='hyper::net::NetworkStream'>NetworkStream</a></span>'',
     ''impl <a class='trait' href='https://doc.rust-lang.org/nightly/core/convert/trait.From.html' title='core::convert::From'>From</a>&lt;<a class='struct' href='https://doc.rust-lang.org/nightly/std/net/tcp/struct.TcpListener.html' title='std::net::tcp::TcpListener'>TcpListener</a>&gt; for <a class='struct' href='https://hyperium.github.io/hyper/hyper/net/struct.HttpListener.html' title='hyper::net::HttpListener'>HttpListener</a>'',
     ''impl <a class='trait' href='https://doc.rust-lang.org/nightly/core/convert/trait.From.html' title='core::convert::From'>From</a>&lt;<a class='primitive' href='https://doc.rust-lang.org/nightly/std/primitive.i8.html'>i8</a>&gt; for StatusCode'',
     ''impl <a class='trait' href='https://doc.rust-lang.org/nightly/core/convert/trait.From.html' title='core::convert::From'>From</a>&lt;<a class='primitive' href='https://doc.rust-lang.org/nightly/std/primitive.u8.html'>u8</a>&gt; for StatusCode'',
     ''impl <a class='trait' href='https://doc.rust-lang.org/nightly/core/convert/trait.From.html' title='core::convert::From'>From</a>&lt;<a class='primitive' href='https://doc.rust-lang.org/nightly/std/primitive.i16.html'>i16</a>&gt; for StatusCode'',
     ''impl <a class='trait' href='https://doc.rust-lang.org/nightly/core/convert/trait.From.html' title='core::convert::From'>From</a>&lt;<a class='primitive' href='https://doc.rust-lang.org/nightly/std/primitive.u16.html'>u16</a>&gt; for StatusCode'',
     ''impl <a class='trait' href='https://doc.rust-lang.org/nightly/core/convert/trait.From.html' title='core::convert::From'>From</a>&lt;<a class='primitive' href='https://doc.rust-lang.org/nightly/std/primitive.i32.html'>i32</a>&gt; for StatusCode'',
     ''impl <a class='trait' href='https://doc.rust-lang.org/nightly/core/convert/trait.From.html' title='core::convert::From'>From</a>&lt;<a class='primitive' href='https://doc.rust-lang.org/nightly/std/primitive.u32.html'>u32</a>&gt; for StatusCode'',
     ''impl <a class='trait' href='https://doc.rust-lang.org/nightly/core/convert/trait.From.html' title='core::convert::From'>From</a>&lt;<a class='primitive' href='https://doc.rust-lang.org/nightly/std/primitive.tuple.html'>(<a class='primitive' href='https://doc.rust-lang.org/nightly/std/primitive.u8.html'>u8</a>, <a class='primitive' href='https://doc.rust-lang.org/nightly/std/primitive.u8.html'>u8</a>)</a>&gt; for HTTPVersion'',
     ''impl <a class='trait' href='https://doc.rust-lang.org/nightly/core/convert/trait.From.html' title='core::convert::From'>From</a>&lt;<a class='struct' href='https://doc.rust-lang.org/nightly/std/io/error/struct.Error.html' title='std::io::error::Error'>Error</a>&gt; for RequestCreationError'',
     ''impl <a class='trait' href='https://doc.rust-lang.org/nightly/core/convert/trait.From.html' title='core::convert::From'>From</a>&lt;<a class='struct' href='https://doc.rust-lang.org/nightly/std/net/tcp/struct.TcpStream.html' title='std::net::tcp::TcpStream'>TcpStream</a>&gt; for Stream'',
     ''impl <a class='trait' href='https://doc.rust-lang.org/nightly/core/convert/trait.From.html' title='core::convert::From'>From</a>&lt;<a class='struct' href='https://doc.rust-lang.org/nightly/std/io/error/struct.Error.html' title='std::io::error::Error'>Error</a>&gt; for Message'',
     ''impl <a class='trait' href='https://doc.rust-lang.org/nightly/core/convert/trait.From.html' title='core::convert::From'>From</a>&lt;<a class='struct' href='multipart/server/tiny_http/struct.TinyHttpRequest.html' title='multipart::server::tiny_http::TinyHttpRequest'>Request</a>&gt; for Message'']"

text \<open>\<^verbatim>\<open>var implementors = {}; implementors['multipart'] = [...];\<close>\<close>

definition implementors :: table where
  "implementors = obj_set ''multipart'' implementors_multipart []"

subsection \<open>The registration step\<close>

text \<open>
  The conditional at the end of the file, for the table held in the local variable
  \<^verbatim>\<open>implementors\<close>: the same statement closes every implementors file of the
  documentation, each with a table of its own.
\<close>

definition handoff :: "table \<Rightarrow> window \<Rightarrow> result" where
  "handoff tbl w =
     (if truthy (get_prop w ''register_implementors'')
      then call_value (get_prop w ''register_implementors'') [JTable tbl] w
      else Inr (w(''pending_implementors'' \<mapsto> JTable tbl), []))"

text \<open>The whole file.\<close>

definition registration_step :: "window \<Rightarrow> result" where
  "registration_step w = handoff implementors w"

section \<open>Properties\<close>

subsection \<open>The two branches\<close>

lemma implementors_literal: "implementors = [(''multipart'', implementors_multipart)]"
  by (simp add: implementors_def)

lemma handoff_function:
  "get_prop w ''register_implementors'' = JFunction f \<Longrightarrow>
   handoff tbl w = Inr (w, [Call f [JTable tbl]])"
  by (simp add: handoff_def)

lemma handoff_falsy:
  "\<not> truthy (get_prop w ''register_implementors'') \<Longrightarrow>
   handoff tbl w = Inr (w(''pending_implementors'' \<mapsto> JTable tbl), [])"
  by (simp add: handoff_def)

lemma handoff_not_callable:
  "truthy (get_prop w ''register_implementors'') \<Longrightarrow>
   \<not> callable (get_prop w ''register_implementors'') \<Longrightarrow>
   handoff tbl w = Inl TypeError"
  by (cases "get_prop w ''register_implementors''") (simp_all add: handoff_def)

lemma get_prop_other:
  "k \<noteq> k' \<Longrightarrow> get_prop (w(k' \<mapsto> v)) k = get_prop w k"
  by (simp add: get_prop_def)

lemma get_prop_same: "get_prop (w(k \<mapsto> v)) k = v"
  by (simp add: get_prop_def)

text \<open>
  C1. When \<^verbatim>\<open>window.register_implementors\<close> holds a hook (a function) as the step starts,
  the step completes and the calls it made are exactly one call of that hook, whose argument
  list is the table alone; the table has the one key \<^verbatim>\<open>multipart\<close> with the strings of the
  array literal, in their order.
\<close>

theorem hook_called_once_with_table:
  assumes "get_prop w ''register_implementors'' = JFunction f"
  shows "calls_made (registration_step w) =
           Some [Call f [JTable [(''multipart'', implementors_multipart)]]]"
  using assms by (simp add: registration_step_def handoff_function implementors_literal)

theorem hook_called_once_with_table_witness:
  "get_prop [''register_implementors'' \<mapsto> JFunction 7] ''register_implementors'' = JFunction 7
   \<and> calls_made (registration_step [''register_implementors'' \<mapsto> JFunction 7]) =
         Some [Call 7 [JTable [(''multipart'', implementors_multipart)]]]"
proof -
  have h: "get_prop [''register_implementors'' \<mapsto> JFunction 7] ''register_implementors''
             = JFunction 7"
    by (simp add: get_prop_def)
  from h hook_called_once_with_table [OF h] show ?thesis by simp
qed

text \<open>
  C2. When \<^verbatim>\<open>window.register_implementors\<close> is unset as the step starts, the step
  completes, \<^verbatim>\<open>window.pending_implementors\<close> then holds the table of the file, and no call
  was made.
\<close>

theorem unset_hook_parks_table:
  assumes "get_prop w ''register_implementors'' = JUndefined"
  shows "map_option (\<lambda>w'. get_prop w' ''pending_implementors'')
           (final_window (registration_step w)) =
             Some (JTable [(''multipart'', implementors_multipart)])
         \<and> calls_made (registration_step w) = Some []"
  using assms
  by (simp add: registration_step_def handoff_falsy implementors_literal get_prop_same)

theorem unset_hook_parks_table_witness:
  "get_prop Map.empty ''register_implementors'' = JUndefined
   \<and> map_option (\<lambda>w'. get_prop w' ''pending_implementors'')
         (final_window (registration_step Map.empty)) =
           Some (JTable [(''multipart'', implementors_multipart)])
   \<and> calls_made (registration_step Map.empty) = Some []"
proof -
  have h: "get_prop Map.empty ''register_implementors'' = JUndefined"
    by (simp add: get_prop_def)
  from h unset_hook_parks_table [OF h] show ?thesis by simp
qed

text \<open>
  C3. Two loads in a row with the hook unset, from any window (so with anything in
  \<^verbatim>\<open>window.pending_implementors\<close> before), leave the table of the second load in
  \<^verbatim>\<open>window.pending_implementors\<close>, whatever the table of the first load was: the slot is
  overwritten, nothing of the earlier value is kept. The first load leaves the hook unset,
  so it is unset both times. For this file loaded twice the slot holds the table of the file.
\<close>

theorem second_load_overwrites:
  assumes "get_prop w ''register_implementors'' = JUndefined"
  shows "then_load (handoff t1 w) (handoff t2) =
           Inr (w(''pending_implementors'' \<mapsto> JTable t2), [])
         \<and> map_option (\<lambda>w'. get_prop w' ''register_implementors'')
              (final_window (handoff t1 w)) = Some JUndefined
         \<and> map_option (\<lambda>w'. get_prop w' ''pending_implementors'')
              (final_window (then_load (registration_step w) registration_step)) =
                Some (JTable implementors)"
proof -
  let ?w1 = "\<lambda>t. w(''pending_implementors'' \<mapsto> JTable t)"
  have first: "handoff t w = Inr (?w1 t, [])" for t
    using assms by (simp add: handoff_falsy)
  have still: "get_prop (?w1 t) ''register_implementors'' = JUndefined" for t
    using assms by (simp add: get_prop_other)
  have second: "handoff t' (?w1 t) = Inr (w(''pending_implementors'' \<mapsto> JTable t'), [])"
    for t t'
    using still [of t] by (simp add: handoff_falsy)
  have twice: "then_load (handoff t w) (handoff t') =
                 Inr (w(''pending_implementors'' \<mapsto> JTable t'), [])" for t t'
    by (simp add: then_load_def first second)
  have "registration_step = handoff implementors"
    by (rule ext) (simp add: registration_step_def)
  then show ?thesis
    using twice [of t1 t2] twice [of implementors implementors] first [of t1] still [of t1]
    by (simp add: get_prop_same)
qed

theorem second_load_overwrites_witness:
  "get_prop [''pending_implementors'' \<mapsto> JTable [(''hyper'', [''a'', ''b''])]]
     ''register_implementors'' = JUndefined
   \<and> then_load
        (handoff [(''hyper'', [''c''])]
           [''pending_implementors'' \<mapsto> JTable [(''hyper'', [''a'', ''b''])]])
        (handoff [(''multipart'', [''d''])]) =
       Inr ([''pending_implementors'' \<mapsto> JTable [(''multipart'', [''d''])]], [])"
proof -
  have h: "get_prop [''pending_implementors'' \<mapsto> JTable [(''hyper'', [''a'', ''b''])]]
             ''register_implementors'' = JUndefined"
    by (simp add: get_prop_def)
  from h second_load_overwrites [OF h, of "[(''hyper'', [''c''])]" "[(''multipart'', [''d''])]"]
  show ?thesis by simp
qed

text \<open>
  C4. The table of the file has exactly the key \<^verbatim>\<open>multipart\<close>; the value under it is the
  array of the file, which is not empty and holds no empty string.
\<close>

theorem implementors_shape:
  "keys implementors = [''multipart'']
   \<and> set (keys implementors) = {''multipart''}
   \<and> obj_get implementors ''multipart'' = Some implementors_multipart
   \<and> implementors_multipart \<noteq> []
   \<and> [] \<notin> set implementors_multipart"
proof -
  have "implementors_multipart \<noteq> []"
    by (simp add: implementors_multipart_def)
  moreover have "[] \<notin> set implementors_multipart"
    by (simp add: implementors_multipart_def)
  ultimately show ?thesis
    by (simp add: implementors_literal keys_def)
qed

text \<open>
  C5. With a hook installed, a load calls the hook with the table and leaves the window as
  it was; a second load from there makes the same call again, with the same argument, and
  again leaves the window as it was.
\<close>

theorem hook_path_twice:
  assumes "get_prop w ''register_implementors'' = JFunction f"
  shows "registration_step w = Inr (w, [Call f [JTable implementors]])
         \<and> then_load (registration_step w) registration_step =
             Inr (w, [Call f [JTable implementors], Call f [JTable implementors]])"
  using assms by (simp add: registration_step_def handoff_function then_load_def)

theorem hook_path_twice_witness:
  "get_prop [''register_implementors'' \<mapsto> JFunction 7] ''register_implementors'' = JFunction 7
   \<and> registration_step [''register_implementors'' \<mapsto> JFunction 7] =
       Inr ([''register_implementors'' \<mapsto> JFunction 7], [Call 7 [JTable implementors]])
   \<and> then_load (registration_step [''register_implementors'' \<mapsto> JFunction 7])
        registration_step =
       Inr ([''register_implementors'' \<mapsto> JFunction 7],
            [Call 7 [JTable implementors], Call 7 [JTable implementors]])"
proof -
  have h: "get_prop [''register_implementors'' \<mapsto> JFunction 7] ''register_implementors''
             = JFunction 7"
    by (simp add: get_prop_def)
  from h hook_path_twice [OF h] show ?thesis by blast
qed



text \<open>
  C7. When \<^verbatim>\<open>window.register_implementors\<close> is unset, the step completes without making
  a call, and every property of the window other than \<^verbatim>\<open>pending_implementors\<close>, the hook's
  among them, is afterwards what it was before.
\<close>

theorem unset_hook_frame:
  assumes "get_prop w ''register_implementors'' = JUndefined"
    and "k \<noteq> ''pending_implementors''"
  shows "map_option (\<lambda>w'. w' k) (final_window (registration_step w)) = Some (w k)
         \<and> map_option (\<lambda>w'. w' ''register_implementors'') (final_window (registration_step w))
             = Some (w ''register_implementors'')
         \<and> calls_made (registration_step w) = Some []"
  using assms by (simp add: registration_step_def handoff_falsy)

theorem unset_hook_frame_witness:
  "get_prop [''search_index'' \<mapsto> JNum 5] ''register_implementors'' = JUndefined
   \<and> ''search_index'' \<noteq> ''pending_implementors''
   \<and> map_option (\<lambda>w'. w' ''search_index'')
        (final_window (registration_step [''search_index'' \<mapsto> JNum 5])) = Some (Some (JNum 5))"
proof -
  have h: "get_prop [''search_index'' \<mapsto> JNum 5] ''register_implementors'' = JUndefined"
    by (simp add: get_prop_def)
  have d: "''search_index'' \<noteq> ''pending_implementors''" by simp
  from h d unset_hook_frame [OF h d] show ?thesis by simp
qed

text \<open>
  C8. In both branches the step leaves \<^verbatim>\<open>window.register_implementors\<close> alone: whenever
  the slot is unset (or counts as false in another way) or holds a function, the step
  completes and the slot then holds what it held before.
\<close>

theorem hook_slot_never_written:
  assumes "\<not> truthy (get_prop w ''register_implementors'')
           \<or> callable (get_prop w ''register_implementors'')"
  shows "map_option (\<lambda>w'. w' ''register_implementors'') (final_window (registration_step w))
           = Some (w ''register_implementors'')"
proof (cases "truthy (get_prop w ''register_implementors'')")
  case False
  then show ?thesis by (simp add: registration_step_def handoff_falsy)
next
  case True
  with assms have "callable (get_prop w ''register_implementors'')" by simp
  then obtain f where "get_prop w ''register_implementors'' = JFunction f"
    by (cases "get_prop w ''register_implementors''") simp_all
  then show ?thesis by (simp add: registration_step_def handoff_function)
qed

theorem hook_slot_never_written_witness:
  "map_option (\<lambda>w'. w' ''register_implementors'') (final_window (registration_step Map.empty))
       = Some None
   \<and> map_option (\<lambda>w'. w' ''register_implementors'')
        (final_window (registration_step [''register_implementors'' \<mapsto> JFunction 7]))
       = Some (Some (JFunction 7))"
proof -
  have h1: "\<not> truthy (get_prop Map.empty ''register_implementors'')
            \<or> callable (get_prop Map.empty ''register_implementors'')"
    by (simp add: get_prop_def)
  have h2: "\<not> truthy (get_prop [''register_implementors'' \<mapsto> JFunction 7]
                        ''register_implementors'')
            \<or> callable (get_prop [''register_implementors'' \<mapsto> JFunction 7]
                        ''register_implementors'')"
    by (simp add: get_prop_def)
  from hook_slot_never_written [OF h1] hook_slot_never_written [OF h2]
  show ?thesis by simp
qed

text \<open>
  C9. When \<^verbatim>\<open>window.register_implementors\<close> holds a hook, the step completes and
  \<^verbatim>\<open>window.pending_implementors\<close> is afterwards what it was before: a table parked there by
  an earlier load stays, and an absent slot stays absent.
\<close>

theorem hook_branch_keeps_pending:
  assumes "get_prop w ''register_implementors'' = JFunction f"
  shows "map_option (\<lambda>w'. w' ''pending_implementors'') (final_window (registration_step w))
           = Some (w ''pending_implementors'')"
  using assms by (simp add: registration_step_def handoff_function)

theorem hook_branch_keeps_pending_witness:
  "get_prop [''pending_implementors'' \<mapsto> JTable [(''hyper'', [''a''])],
             ''register_implementors'' \<mapsto> JFunction 7] ''register_implementors'' = JFunction 7
   \<and> map_option (\<lambda>w'. w' ''pending_implementors'')
        (final_window (registration_step
           [''pending_implementors'' \<mapsto> JTable [(''hyper'', [''a''])],
            ''register_implementors'' \<mapsto> JFunction 7]))
       = Some (Some (JTable [(''hyper'', [''a''])]))"
proof -
  have h: "get_prop [''pending_implementors'' \<mapsto> JTable [(''hyper'', [''a''])],
                     ''register_implementors'' \<mapsto> JFunction 7] ''register_implementors''
             = JFunction 7"
    by (simp add: get_prop_def)
  from h hook_branch_keeps_pending [OF h] show ?thesis by simp
qed

text \<open>
  C10. The array stored under \<^verbatim>\<open>multipart\<close> in the table of the file has 33 strings, and
  the first four characters of each are \<^verbatim>\<open>impl\<close>.
\<close>

theorem multipart_entries:
  "obj_get implementors ''multipart'' = Some implementors_multipart
   \<and> length implementors_multipart = 33
   \<and> list_all (\<lambda>s. take 4 s = ''impl'') implementors_multipart"
proof -
  have "length implementors_multipart = 33"
    by (simp add: implementors_multipart_def)
  moreover have "list_all (\<lambda>s. take 4 s = ''impl'') implementors_multipart"
    by (simp add: implementors_multipart_def)
  ultimately show ?thesis
    by (simp add: implementors_literal)
qed

end
